theory Spec2Isabelle
  imports Main "HOL-Library.Word"
begin

section \<open>The header \<^verbatim>\<open>elka.h\<close>: a 16 x 24 bitmap as a byte array\<close>

text \<open>
  The header consists of four object-like macros and one initialised global array of
  \<^verbatim>\<open>uint8_t\<close>. There is no function in it; the only operation a program can
  apply to the array that the properties below speak about is the subscript expression
  \<^verbatim>\<open>image[i]\<close> used as an rvalue.
\<close>

subsection \<open>Dimension macros\<close>

text \<open>
  The three literal macros expand to decimal literals of C type \<^verbatim>\<open>int\<close>, and
  \<^verbatim>\<open>IMAGE_LENGTH\<close> expands to their product, in the order the header writes it.
  The product is far below \<open>2 ^ 31\<close>, so unbounded integers are exact here.
\<close>

definition IMAGE_HEIGHT :: int where
  "IMAGE_HEIGHT = 24"

definition IMAGE_WIDTH :: int where
  "IMAGE_WIDTH = 16"

definition PIXEL_SIZE :: int where
  "PIXEL_SIZE = 1"

definition IMAGE_LENGTH :: int where
  "IMAGE_LENGTH = IMAGE_WIDTH * IMAGE_HEIGHT * PIXEL_SIZE"

subsection \<open>The array and its initialiser\<close>

type_synonym uint8_t = "8 word"

text \<open>The brace-enclosed initialiser list, one line of the header per line, in order.\<close>

definition image_initializer :: "uint8_t list" where
  "image_initializer =
    [
     0xff, 0xff, 0xff, 0xff, 0xff, 0xff, 0xff, 0x95, 0xfe, 0xff, 0xff, 0xff, 0xff, 0xff, 0xff, 0xff,
     0xff, 0xff, 0xff, 0xff, 0xff, 0xff, 0x8f, 0x92, 0x92, 0xf9, 0xff, 0xff, 0xff, 0xff, 0xff, 0xff,
     0xff, 0xff, 0xff, 0xff, 0xff, 0xfa, 0x91, 0x9c, 0x93, 0x92, 0xfe, 0xff, 0xff, 0xff, 0xff, 0xff,
     0xff, 0xff, 0xff, 0xff, 0xfd, 0x99, 0x93, 0x95, 0x97, 0x94, 0x94, 0xfd, 0xfd, 0xff, 0xff, 0xff,
     0xff, 0xff, 0xff, 0xfe, 0x91, 0x94, 0x94, 0x93, 0x98, 0x94, 0x9a, 0x99, 0xfe, 0xff, 0xff, 0xff,
     0xff, 0xff, 0xff, 0xff, 0xff, 0xfd, 0x99, 0x91, 0x90, 0x98, 0xfe, 0xfe, 0xfe, 0xff, 0xff, 0xff,
     0xff, 0xff, 0xff, 0xff, 0xee, 0x9b, 0x9c, 0x94, 0x90, 0x99, 0x9a, 0xfd, 0xff, 0xff, 0xff, 0xff,
     0xff, 0xff, 0xff, 0x93, 0x93, 0x9a, 0x9a, 0x94, 0x94, 0x9a, 0x8f, 0x90, 0xfc, 0xff, 0xff, 0xff,
     0xff, 0xff, 0xfb, 0x98, 0x91, 0x93, 0x9a, 0x8f, 0x9d, 0x97, 0x94, 0x8f, 0x98, 0xff, 0xff, 0xff,
     0xff, 0xff, 0xff, 0xff, 0xfb, 0x93, 0x93, 0x8e, 0x94, 0x98, 0x8e, 0xfb, 0xff, 0xff, 0xff, 0xff,
     0xff, 0xff, 0xff, 0xfe, 0x93, 0x98, 0x97, 0x95, 0x96, 0x9c, 0x95, 0x9b, 0xfc, 0xff, 0xff, 0xff,
     0xff, 0xff, 0xfe, 0x95, 0x90, 0x96, 0x99, 0x97, 0x95, 0x9c, 0x94, 0x98, 0x90, 0xff, 0xff, 0xff,
     0xff, 0xfd, 0x9e, 0x9b, 0x8f, 0x90, 0x9e, 0x9d, 0x97, 0x9c, 0x93, 0x95, 0x98, 0x95, 0xff, 0xff,
     0xff, 0xff, 0xff, 0xff, 0xfd, 0x90, 0x98, 0x9c, 0x9c, 0x9c, 0x98, 0xfa, 0xfd, 0xff, 0xff, 0xff,
     0xff, 0xff, 0xff, 0xac, 0x98, 0x9c, 0x9c, 0x9c, 0x9c, 0x9c, 0x94, 0x95, 0xfc, 0xff, 0xff, 0xff,
     0xff, 0xfe, 0x96, 0x8f, 0x91, 0x99, 0x97, 0x92, 0x99, 0x99, 0x92, 0x96, 0x98, 0xb1, 0xff, 0xff,
     0xff, 0x93, 0x98, 0x94, 0x93, 0x98, 0x99, 0x97, 0x99, 0x9c, 0x97, 0x9a, 0x9c, 0x8b, 0x89, 0xff,
     0xff, 0xfe, 0xfe, 0xff, 0xfe, 0xfe, 0xfe, 0xfe, 0xfe, 0xfe, 0xfe, 0xfd, 0xfe, 0xff, 0xfe, 0xff,
     0xff, 0xff, 0xff, 0xff, 0xff, 0xff, 0xff, 0xa7, 0xa7, 0xff, 0xff, 0xff, 0xff, 0xff, 0xff, 0xff,
     0xff, 0xff, 0xff, 0xff, 0xff, 0xff, 0xff, 0x99, 0x99, 0xff, 0xff, 0xff, 0xff, 0xff, 0xff, 0xff,
     0xff, 0xff, 0xff, 0xff, 0xff, 0xff, 0xff, 0xb1, 0xa9, 0xff, 0xff, 0xff, 0xff, 0xff, 0xff, 0xff,
     0xff, 0xff, 0xff, 0xff, 0xff, 0xff, 0xff, 0xb0, 0xb1, 0xff, 0xff, 0xff, 0xff, 0xff, 0xff, 0xff,
     0xff, 0xff, 0xff, 0xff, 0xff, 0xff, 0xff, 0xb6, 0xb1, 0xff, 0xff, 0xff, 0xff, 0xff, 0xff, 0xff,
     0xff, 0xff, 0xff, 0xff, 0xff, 0xff, 0xff, 0xb6, 0xb1, 0xff, 0xff, 0xff, 0xff, 0xff, 0xff, 0xff
    ]"

text \<open>
  A declaration \<^verbatim>\<open>T a[n] = { ... }\<close> is well formed when \<open>n\<close> is positive and the
  list has at most \<open>n\<close> initialisers; the array then has \<open>n\<close> elements, the listed ones
  first and every remaining element zero.
\<close>

definition initializer_fits :: "int \<Rightarrow> uint8_t list \<Rightarrow> bool" where
  "initializer_fits n xs = (0 < n \<and> int (length xs) \<le> n)"

definition array_of_initializer :: "int \<Rightarrow> uint8_t list \<Rightarrow> uint8_t list" where
  "array_of_initializer n xs = xs @ replicate (nat n - length xs) 0"

text \<open>
  The global \<^verbatim>\<open>uint8_t image[IMAGE_LENGTH] = { ... }\<close>. (The name \<open>image\<close> is taken
  in HOL by the image of a set under a function, hence the suffix.)
\<close>

definition image_buf :: "uint8_t list" where
  "image_buf = array_of_initializer IMAGE_LENGTH image_initializer"

subsection \<open>Program state and the subscript read\<close>

text \<open>
  The array is a global object with static storage duration. It is not declared
  \<^verbatim>\<open>const\<close>, so it is part of the mutable state of any program including the header;
  the header itself contains no statement that writes to it.
\<close>

record globals =
  image_mem :: "uint8_t list"

definition startup :: globals where
  "startup = \<lparr> image_mem = image_buf \<rparr>"

text \<open>
  Evaluating \<^verbatim>\<open>image[i]\<close> as an rvalue: defined exactly for \<open>0 \<le> i < IMAGE_LENGTH\<close>,
  where it yields the stored byte and leaves the state as it was. Outside that range the
  behaviour is undefined, which is \<open>None\<close> here.
\<close>

definition read_image :: "globals \<Rightarrow> int \<Rightarrow> (uint8_t \<times> globals) option" where
  "read_image s i =
     (if 0 \<le> i \<and> i < IMAGE_LENGTH then Some (image_mem s ! nat i, s) else None)"

text \<open>
  Since the declaration carries no \<^verbatim>\<open>const\<close>, the assignment
  \<^verbatim>\<open>image[i] = v\<close> is a well-formed statement of any program that includes the
  header. It is defined for the same indices as the read and replaces the byte at that
  position.
\<close>

definition write_image :: "globals \<Rightarrow> int \<Rightarrow> uint8_t \<Rightarrow> globals option" where
  "write_image s i v =
     (if 0 \<le> i \<and> i < IMAGE_LENGTH
      then Some (s\<lparr>image_mem := (image_mem s)[nat i := v]\<rparr>) else None)"

text \<open>
  A straight-line sequence of accesses to the array, as an including program may perform
  them one after the other. Running it yields the bytes read, in order, and the final
  state; it is undefined as soon as one access is.
\<close>

datatype access = Read int | Write int uint8_t

fun in_range :: "access \<Rightarrow> bool" where
  "in_range (Read j) = (0 \<le> j \<and> j < IMAGE_LENGTH)"
| "in_range (Write j v) = (0 \<le> j \<and> j < IMAGE_LENGTH)"

fun writes_to :: "int \<Rightarrow> access \<Rightarrow> bool" where
  "writes_to i (Read j) = False"
| "writes_to i (Write j v) = (j = i)"

fun run :: "globals \<Rightarrow> access list \<Rightarrow> (uint8_t list \<times> globals) option" where
  "run s [] = Some ([], s)"
| "run s (Read i # as) =
     (case read_image s i of
        None \<Rightarrow> None
      | Some (v, s') \<Rightarrow>
          (case run s' as of None \<Rightarrow> None | Some (vs, s'') \<Rightarrow> Some (v # vs, s'')))"
| "run s (Write i v # as) =
     (case write_image s i v of None \<Rightarrow> None | Some s' \<Rightarrow> run s' as)"

section \<open>Basic facts\<close>

lemma IMAGE_LENGTH_value: "IMAGE_LENGTH = 384"
  by (simp add: IMAGE_LENGTH_def IMAGE_WIDTH_def IMAGE_HEIGHT_def PIXEL_SIZE_def)

lemma length_image_initializer: "length image_initializer = 384"
  by (simp add: image_initializer_def)

lemma image_buf_is_initializer: "image_buf = image_initializer"
  by (simp add: image_buf_def array_of_initializer_def IMAGE_LENGTH_value
      length_image_initializer)

lemma length_image_buf: "length image_buf = 384"
  by (simp add: image_buf_is_initializer length_image_initializer)

lemma read_startup:
  "0 \<le> i \<Longrightarrow> i < 384 \<Longrightarrow>
     read_image startup i = Some (image_initializer ! nat i, startup)"
  by (simp add: read_image_def startup_def IMAGE_LENGTH_value image_buf_is_initializer)

lemma read_preserves_state: "read_image s i = Some (v, s') \<Longrightarrow> s' = s"
  by (simp add: read_image_def split: if_splits)

lemma read_out_of_range: "i < 0 \<or> IMAGE_LENGTH \<le> i \<Longrightarrow> read_image s i = None"
  by (auto simp add: read_image_def)

lemma uint8_range: "0 \<le> uint (x :: uint8_t) \<and> uint x \<le> 255"
proof -
  have "uint x < 2 ^ LENGTH(8)" by (rule uint_lt2p)
  then show ?thesis by simp
qed

text \<open>Two scans of the whole initialiser, done once and shared below.\<close>

lemma initializer_at_least_0x89: "list_all (\<lambda>x. 0x89 \<le> uint x) image_initializer"
  by (simp add: image_initializer_def)

lemma initializer_border_columns:
  "list_all
     (\<lambda>r. image_initializer ! (16 * r) = 0xff \<and> image_initializer ! (16 * r + 15) = 0xff)
     [0..<24]"
  by code_simp


text \<open>Running a sequence in two parts.\<close>

lemma run_append:
  "run s (as @ bs) =
     (case run s as of
        None \<Rightarrow> None
      | Some (vs, s') \<Rightarrow>
          (case run s' bs of None \<Rightarrow> None | Some (ws, s'') \<Rightarrow> Some (vs @ ws, s'')))"
proof (induction as arbitrary: s)
  case Nil
  show ?case by (simp split: option.splits)
next
  case (Cons a as)
  show ?case
  proof (cases a)
    case (Read j)
    then show ?thesis by (simp add: Cons.IH split: option.splits prod.splits)
  next
    case (Write j v)
    then show ?thesis by (simp add: Cons.IH split: option.splits prod.splits)
  qed
qed

text \<open>
  Frame property: a sequence of in-range accesses that never writes to index \<open>i\<close> runs to
  completion and leaves the byte at \<open>i\<close> as it was.
\<close>

lemma run_frame:
  assumes "0 \<le> i" and "\<forall>a \<in> set as. in_range a \<and> \<not> writes_to i a"
  shows "\<exists>vs s'. run s as = Some (vs, s') \<and> image_mem s' ! nat i = image_mem s ! nat i"
  using assms(2)
proof (induction as arbitrary: s)
  case Nil
  show ?case by simp
next
  case (Cons a as)
  then have rest: "\<forall>a \<in> set as. in_range a \<and> \<not> writes_to i a"
    and here: "in_range a" "\<not> writes_to i a"
    by simp_all
  show ?case
  proof (cases a)
    case (Read j)
    from Cons.IH [OF rest, of s] obtain vs s'
      where "run s as = Some (vs, s')" "image_mem s' ! nat i = image_mem s ! nat i"
      by blast
    with Read here show ?thesis by (simp add: read_image_def)
  next
    case (Write j v)
    with here have j: "0 \<le> j" "j < IMAGE_LENGTH" "j \<noteq> i" by simp_all
    let ?t = "s\<lparr>image_mem := (image_mem s)[nat j := v]\<rparr>"
    from Cons.IH [OF rest, of ?t] obtain vs s'
      where r: "run ?t as = Some (vs, s')" "image_mem s' ! nat i = image_mem ?t ! nat i"
      by blast
    from j assms(1) have "nat j \<noteq> nat i" by simp
    then have "image_mem ?t ! nat i = image_mem s ! nat i" by simp
    with r Write j show ?thesis by (simp add: write_image_def)
  qed
qed

section \<open>Size of the buffer and the dimension constants\<close>

text \<open>
  C1. The pixel buffer has exactly 384 elements, and that count is the declared length
  constant \<^verbatim>\<open>IMAGE_LENGTH\<close>. The initialiser list fits the declared size and fills
  it completely, so the array is the list as written, with no zero padding.
\<close>

theorem image_length_is_IMAGE_LENGTH:
  "initializer_fits IMAGE_LENGTH image_initializer
   \<and> image_buf = image_initializer
   \<and> length image_buf = 384
   \<and> int (length image_buf) = IMAGE_LENGTH"
  by (simp add: initializer_fits_def IMAGE_LENGTH_value image_buf_is_initializer
      length_image_initializer)

text \<open>
  C3. The declared constants are width 16, height 24 and pixel size 1, and the derived
  length constant is width * height * pixel size, which is 384.
\<close>

theorem dimension_constants:
  "IMAGE_WIDTH = 16 \<and> IMAGE_HEIGHT = 24 \<and> PIXEL_SIZE = 1
   \<and> IMAGE_LENGTH = IMAGE_WIDTH * IMAGE_HEIGHT * PIXEL_SIZE
   \<and> IMAGE_LENGTH = 384"
  by (simp add: IMAGE_LENGTH_def IMAGE_WIDTH_def IMAGE_HEIGHT_def PIXEL_SIZE_def)

section \<open>Individual pixels\<close>

text \<open>
  C4. Reading the buffer at flat index 7, which is row 0, column 7, returns \<open>0x95\<close>.
\<close>

theorem read_row0_col7:
  "0 * IMAGE_WIDTH + 7 = 7 \<and> read_image startup 7 = Some (0x95, startup)"
  by (simp add: read_startup image_initializer_def)

text \<open>
  Row 8 starts with two bytes \<open>0xff\<close>; its first darker byte \<open>0xfb\<close> is in column 2.
  So the read at flat index 128 does not return \<open>0xfb\<close>.
\<close>

theorem read_row8_col0_not_0xfb:
  "map_option fst (read_image startup 128) \<noteq> Some 0xfb"
  by (simp add: read_startup image_initializer_def)

text \<open>
  C2, as amended. Reading the buffer at flat index 128, which is row 8, column 0, returns
  \<open>0xff\<close>.
\<close>

theorem read_row8_col0:
  "8 * IMAGE_WIDTH + 0 = 128 \<and> read_image startup 128 = Some (0xff, startup)"
  by (simp add: IMAGE_WIDTH_def read_startup image_initializer_def)

lemma read_row8_col2:
  "8 * IMAGE_WIDTH + 2 = 130 \<and> read_image startup 130 = Some (0xfb, startup)"
  by (simp add: IMAGE_WIDTH_def read_startup image_initializer_def)

text \<open>
  The last row has \<open>0xb6, 0xb1\<close> in columns 7 and 8 and \<open>0xff\<close> everywhere else, also in
  its last column. So the read of the last element does not return \<open>0xb1\<close>.
\<close>

theorem read_last_not_0xb1:
  "map_option fst (read_image startup 383) \<noteq> Some 0xb1"
  by (simp add: read_startup image_initializer_def)

text \<open>
  C5, as amended. Reading the last element of the buffer, which is row 23, column 15,
  flat index 383, returns \<open>0xff\<close>.
\<close>

theorem read_last:
  "23 * IMAGE_WIDTH + 15 = 383 \<and> IMAGE_LENGTH - 1 = 383
   \<and> read_image startup 383 = Some (0xff, startup)"
  by (simp add: IMAGE_WIDTH_def IMAGE_LENGTH_value read_startup image_initializer_def)

lemma read_row23_col8:
  "23 * IMAGE_WIDTH + 8 = 376 \<and> read_image startup 376 = Some (0xb1, startup)"
  by (simp add: IMAGE_WIDTH_def read_startup image_initializer_def)

section \<open>Value ranges\<close>

text \<open>
  C6. Every element of the pixel buffer, read as an unsigned number, lies in the range
  from 0 to 255.
\<close>

theorem elements_in_byte_range:
  "x \<in> set image_buf \<Longrightarrow> 0 \<le> uint x \<and> uint x \<le> 255"
  by (rule uint8_range)

theorem elements_in_byte_range_witness:
  "(0x95 :: uint8_t) \<in> set image_buf
   \<and> 0 \<le> uint (0x95 :: uint8_t) \<and> uint (0x95 :: uint8_t) \<le> 255"
proof -
  have mem: "(0x95 :: uint8_t) \<in> set image_buf"
    by (simp add: image_buf_is_initializer image_initializer_def)
  from mem elements_in_byte_range [OF mem] show ?thesis by simp
qed

text \<open>
  C9. Every element of the pixel buffer is at least \<open>0x89\<close>, so every value lies in the
  range from \<open>0x89\<close> to \<open>0xff\<close>, and \<open>0x89\<close> is the value at flat index 270.
\<close>

theorem elements_at_least_0x89:
  "(0 \<le> i \<and> i < IMAGE_LENGTH \<longrightarrow>
      (\<exists>v. read_image startup i = Some (v, startup) \<and> 0x89 \<le> uint v \<and> uint v \<le> 0xff))
   \<and> read_image startup 270 = Some (0x89, startup)"
proof -
  have "0x89 \<le> uint (image_initializer ! nat i) \<and> uint (image_initializer ! nat i) \<le> 0xff"
    if "0 \<le> i" "i < 384"
  proof -
    have "nat i < length image_initializer"
      using that by (simp add: length_image_initializer)
    with initializer_at_least_0x89 have "0x89 \<le> uint (image_initializer ! nat i)"
      by (simp add: list_all_length)
    with uint8_range [of "image_initializer ! nat i"] show ?thesis by simp
  qed
  moreover have "read_image startup 270 = Some (0x89, startup)"
    by (simp add: read_startup image_initializer_def)
  ultimately show ?thesis
    by (simp add: IMAGE_LENGTH_value read_startup)
qed

theorem elements_at_least_0x89_witness:
  "(0::int) \<le> 7 \<and> 7 < IMAGE_LENGTH \<and> read_image startup 7 = Some (0x95, startup)
   \<and> (0x89::int) \<le> uint (0x95 :: uint8_t) \<and> uint (0x95 :: uint8_t) \<le> 0xff"
  using elements_at_least_0x89 [of 7]
  by (simp add: IMAGE_LENGTH_value read_startup image_initializer_def)

text \<open>
  C10. For every row \<open>r\<close> from 0 to 23, the first and the last pixel of the row, at flat
  indices \<open>16 * r\<close> and \<open>16 * r + 15\<close>, are both \<open>0xff\<close>: the leftmost and the rightmost
  column of the image are uniformly \<open>0xff\<close>.
\<close>

theorem border_columns_0xff:
  assumes "0 \<le> r" and "r < 24"
  shows "read_image startup (16 * r) = Some (0xff, startup)
       \<and> read_image startup (16 * r + 15) = Some (0xff, startup)"
proof -
  have n: "nat r < 24" using assms by simp
  have eq: "nat (16 * r) = 16 * nat r" "nat (16 * r + 15) = 16 * nat r + 15"
    using assms by simp_all
  from initializer_border_columns n
  have "image_initializer ! (16 * nat r) = 0xff
        \<and> image_initializer ! (16 * nat r + 15) = 0xff"
    by (simp add: list_all_iff)
  then show ?thesis using assms by (simp add: read_startup eq)
qed

theorem border_columns_0xff_witness:
  "(0::int) \<le> 8 \<and> (8::int) < 24
   \<and> read_image startup (16 * 8) = Some (0xff, startup)
   \<and> read_image startup (16 * 8 + 15) = Some (0xff, startup)"
proof -
  have lo: "(0::int) \<le> 8" and hi: "(8::int) < 24" by simp_all
  from border_columns_0xff [OF lo hi] show ?thesis by simp
qed

section \<open>Reads and writes: success, purity and repeatability\<close>

text \<open>
  The array is mutable: a program may assign to an element between two reads of it, and
  the second read then returns the new byte. Here index 7 reads \<open>0x95\<close>, is set to 0,
  and reads 0.
\<close>

theorem write_between_reads_changes_value:
  "run startup [Read 7, Write 7 0, Read 7]
     = Some ([0x95, 0], startup\<lparr>image_mem := image_buf[7 := 0]\<rparr>)
   \<and> (0x95 :: uint8_t) \<noteq> 0"
  by (simp add: read_image_def write_image_def startup_def IMAGE_LENGTH_value
      image_buf_is_initializer image_initializer_def)

text \<open>
  C7, as amended. For every in-range flat index, reading the buffer at that index twice,
  with no write to that index in between, returns the same value both times. Whatever
  other in-range reads, and writes to other indices, happen between the two reads, the
  whole sequence runs to completion and its first and last byte read are the byte stored
  at the index beforehand; from the initial state that byte is the one the header lists.
\<close>

theorem reread_same_value:
  assumes "0 \<le> i" and "i < IMAGE_LENGTH"
    and "\<forall>a \<in> set between. in_range a \<and> \<not> writes_to i a"
  shows "(\<exists>vs s'. run s (Read i # between @ [Read i])
            = Some (image_mem s ! nat i # vs @ [image_mem s ! nat i], s'))
       \<and> (\<exists>vs s'. run startup (Read i # between @ [Read i])
            = Some (image_initializer ! nat i # vs @ [image_initializer ! nat i], s'))"
proof -
  have general: "\<exists>vs s'. run t (Read i # between @ [Read i])
            = Some (image_mem t ! nat i # vs @ [image_mem t ! nat i], s')" for t
  proof -
    from run_frame [OF assms(1) assms(3), of t] obtain vs s'
      where mid: "run t between = Some (vs, s')"
        and same: "image_mem s' ! nat i = image_mem t ! nat i"
      by blast
    have "run s' [Read i] = Some ([image_mem t ! nat i], s')"
      using assms(1,2) same by (simp add: read_image_def)
    with mid have "run t (between @ [Read i]) = Some (vs @ [image_mem t ! nat i], s')"
      by (simp add: run_append)
    then have "run t (Read i # between @ [Read i])
             = Some (image_mem t ! nat i # vs @ [image_mem t ! nat i], s')"
      using assms(1,2) by (simp add: read_image_def)
    then show ?thesis by blast
  qed
  have "image_mem startup = image_initializer"
    by (simp add: startup_def image_buf_is_initializer)
  with general [of startup] general [of s] show ?thesis by simp
qed

theorem reread_same_value_witness:
  "(0::int) \<le> 7 \<and> 7 < IMAGE_LENGTH
   \<and> in_range (Write 8 0) \<and> \<not> writes_to 7 (Write 8 0)
   \<and> in_range (Read 130) \<and> \<not> writes_to 7 (Read 130)
   \<and> run startup (Read 7 # [Write 8 0, Read 130] @ [Read 7])
       = Some ([0x95, 0xfb, 0x95], startup\<lparr>image_mem := image_buf[8 := 0]\<rparr>)"
proof -
  have lo: "(0::int) \<le> 7" by simp
  have hi: "7 < IMAGE_LENGTH" by (simp add: IMAGE_LENGTH_value)
  have ok: "\<forall>a \<in> set [Write 8 0, Read 130]. in_range a \<and> \<not> writes_to 7 a"
    by (simp add: IMAGE_LENGTH_value)
  have "run startup (Read 7 # [Write 8 0, Read 130] @ [Read 7])
       = Some ([0x95, 0xfb, 0x95], startup\<lparr>image_mem := image_buf[8 := 0]\<rparr>)"
    using reread_same_value [OF lo hi ok, of startup]
    by (simp add: read_image_def write_image_def startup_def IMAGE_LENGTH_value
      image_buf_is_initializer image_initializer_def)
  with lo hi ok show ?thesis by simp
qed



end
